theory Spec2Isabelle
  imports Main "HOL-Library.Sublist"
begin

section \<open>editorlint: rules, configuration cascade and fix pipeline\<close>

text \<open>
  A shallow embedding of the Go packages \<open>pkg/rules\<close>, \<open>pkg/config\<close> and the fixing part of
  \<open>pkg/validator\<close>. File contents (\<open>[]byte\<close>) and Go strings are \<open>string\<close>, a list of
  bytes. Functions of the Go standard library that the code calls are modelled next to
  their first use, under the name of the library function.
\<close>

subsection \<open>Bytes and strings\<close>

abbreviation LF :: char where "LF \<equiv> CHR 0x0A"
abbreviation CR :: char where "CR \<equiv> CHR 0x0D"
abbreviation TAB :: char where "TAB \<equiv> CHR 0x09"
abbreviation SPC :: char where "SPC \<equiv> CHR 0x20"
abbreviation BSL :: char where "BSL \<equiv> CHR 0x5C"

text \<open>\<open>bytes.Contains(b, sub)\<close>: \<open>sub\<close> occurs somewhere in \<open>b\<close>.\<close>

fun Contains :: "string \<Rightarrow> string \<Rightarrow> bool" where
  "Contains [] sub = (sub = [])"
| "Contains (c # cs) sub = (prefix sub (c # cs) \<or> Contains cs sub)"

text \<open>
  \<open>bytes.ReplaceAll(s, old, new)\<close> and \<open>strings.ReplaceAll\<close>: the non-overlapping
  occurrences of \<open>old\<close> are replaced from left to right. Every call in the program passes
  a non-empty constant \<open>old\<close>; for an empty \<open>old\<close> the library inserts \<open>new\<close> before every
  character and at the end.
\<close>

function ReplaceAll :: "string \<Rightarrow> string \<Rightarrow> string \<Rightarrow> string" where
  "ReplaceAll [] old new = (if old = [] then new else [])"
| "ReplaceAll (c # cs) old new =
     (if old = [] then new @ c # ReplaceAll cs old new
      else if prefix old (c # cs) then new @ ReplaceAll (drop (length old) (c # cs)) old new
      else c # ReplaceAll cs old new)"
  by pat_completeness auto
termination
  by (relation "measure (\<lambda>(s, old, new). length s)") auto

text \<open>\<open>bytes.Split(s, sep)\<close> for a separator of one byte: always at least one piece.\<close>

fun Split :: "string \<Rightarrow> char \<Rightarrow> string list" where
  "Split [] sep = [[]]"
| "Split (c # cs) sep =
     (if c = sep then [] # Split cs sep
      else (case Split cs sep of l # ls \<Rightarrow> (c # l) # ls | [] \<Rightarrow> [[c]]))"

text \<open>
  \<open>bytes.TrimRightFunc(line, f)\<close> with \<open>f r = (r == ' ' || r == '\t')\<close>: both runes are
  ASCII, so the trailing runes removed are exactly the trailing bytes that satisfy \<open>f\<close>.
\<close>

definition TrimRightFunc :: "string \<Rightarrow> (char \<Rightarrow> bool) \<Rightarrow> string" where
  "TrimRightFunc line f = rev (dropWhile f (rev line))"

text \<open>Decimal and hexadecimal rendering, as \<open>%d\<close> and \<open>%02x\<close> of \<open>fmt.Sprintf\<close> give it.\<close>

function fmt_d :: "nat \<Rightarrow> string" where
  "fmt_d n = (if n < 10 then [''0123456789'' ! n]
              else fmt_d (n div 10) @ [''0123456789'' ! (n mod 10)])"
  by pat_completeness auto
termination
  by (relation "measure id") auto

definition fmt_02x :: "char \<Rightarrow> string" where
  "fmt_02x b = [''0123456789abcdef'' ! (of_char b div 16), ''0123456789abcdef'' ! (of_char b mod 16)]"

text \<open>\<open>%c\<close> of a byte: the UTF-8 encoding of the code point with that number.\<close>

definition fmt_c :: "char \<Rightarrow> string" where
  "fmt_c b = (let n = (of_char b :: nat) in
     if n < 128 then [b] else [char_of (192 + n div 64), char_of (128 + n mod 64)])"

subsection \<open>Resolved configuration and rule results\<close>

text \<open>
  \<open>config.ResolvedConfig\<close>. A Go \<open>*int\<close> or \<open>*bool\<close> is an option (\<open>nil\<close> is \<open>None\<close>); a
  string field is unset when it is the empty string.
\<close>

record ResolvedConfig =
  IndentStyle :: string
  IndentSize :: "int option"
  TabWidth :: "int option"
  EndOfLine :: string
  Charset :: string
  TrimTrailingWhitespace :: "bool option"
  InsertFinalNewline :: "bool option"
  MaxLineLength :: "int option"

text \<open>The zero value \<open>&ResolvedConfig{}\<close>.\<close>

definition empty_config :: ResolvedConfig where
  "empty_config = \<lparr>IndentStyle = [], IndentSize = None, TabWidth = None, EndOfLine = [],
     Charset = [], TrimTrailingWhitespace = None, InsertFinalNewline = None,
     MaxLineLength = None\<rparr>"

record ValidationError =
  FilePath :: string
  Rule :: string
  Message :: string

text \<open>The errors that the functions of the program return.\<close>

datatype error =
    RegexpError string
  | RelError
  | AbsFailed
  | FindFailed error
  | NotFound
  | ResolveFailed error
  | ReadFailed
  | FixerFailed error
  | WriteFailed

text \<open>\<open>rules.FixerFunc\<close> returns the content, the changed flag and the error.\<close>

type_synonym FixerFunc = "string \<Rightarrow> string \<Rightarrow> ResolvedConfig \<Rightarrow> string \<times> bool \<times> error option"
type_synonym ValidatorFunc = "string \<Rightarrow> string \<Rightarrow> ResolvedConfig \<Rightarrow> ValidationError option"

subsection \<open>insert\_final\_newline\<close>

definition getEndOfLineDescription :: "string \<Rightarrow> string" where
  "getEndOfLineDescription endOfLine =
     (if endOfLine = ''crlf'' then ''CRLF ('' @ [BSL] @ ''r'' @ [BSL] @ ''n)''
      else if endOfLine = ''cr'' then ''CR ('' @ [BSL] @ ''r)''
      else if endOfLine = ''lf'' \<or> endOfLine = [] then ''LF ('' @ [BSL] @ ''n)''
      else ''unknown line ending: '' @ endOfLine)"

definition ValidateInsertFinalNewline :: ValidatorFunc where
  "ValidateInsertFinalNewline filePath content cfg =
     (if InsertFinalNewline cfg = None \<or> InsertFinalNewline cfg = Some False then None
      else if length content = 0 then
        Some \<lparr>FilePath = filePath, Rule = ''insert_final_newline'',
              Message = ''empty file should end with a newline''\<rparr>
      else
        let lastChar = content ! (length content - 1);
            actualEnding =
              (if length content \<ge> 2 \<and> content ! (length content - 2) = CR \<and> lastChar = LF
               then Some ''crlf''
               else if lastChar = CR then Some ''cr''
               else if lastChar = LF then Some ''lf''
               else None)
        in case actualEnding of
             None \<Rightarrow>
               Some \<lparr>FilePath = filePath, Rule = ''insert_final_newline'',
                     Message = ''file should end with '' @ getEndOfLineDescription (EndOfLine cfg)
                       @ '', but ends with character '' @ [CHR 0x27] @ fmt_c lastChar
                       @ [CHR 0x27] @ '' (0x'' @ fmt_02x lastChar @ '')''\<rparr>
           | Some actual \<Rightarrow>
               let expectedEnding = (if EndOfLine cfg = [] then ''lf'' else EndOfLine cfg)
               in if actual \<noteq> expectedEnding then
                    Some \<lparr>FilePath = filePath, Rule = ''insert_final_newline'',
                          Message = ''file should end with ''
                            @ getEndOfLineDescription expectedEnding @ '', but ends with ''
                            @ getEndOfLineDescription actual\<rparr>
                  else None)"

definition FixInsertFinalNewline :: FixerFunc where
  "FixInsertFinalNewline filePath content cfg =
     (if InsertFinalNewline cfg = None \<or> InsertFinalNewline cfg = Some False
      then (content, False, None)
      else
        let expectedEnding = (if EndOfLine cfg = [] then ''lf'' else EndOfLine cfg);
            expectedBytes =
              (if expectedEnding = ''crlf'' then [CR, LF]
               else if expectedEnding = ''cr'' then [CR]
               else [LF])
        in if length content = 0 then (expectedBytes, True, None)
           else
             let lastChar = content ! (length content - 1) in
             if length content \<ge> 2 \<and> content ! (length content - 2) = CR \<and> lastChar = LF then
               (if expectedEnding \<noteq> ''crlf''
                then (take (length content - 2) content @ expectedBytes, True, None)
                else (content, False, None))
             else if lastChar = CR then
               (if expectedEnding \<noteq> ''cr''
                then (take (length content - 1) content @ expectedBytes, True, None)
                else (content, False, None))
             else if lastChar = LF then
               (if expectedEnding \<noteq> ''lf''
                then (take (length content - 1) content @ expectedBytes, True, None)
                else (content, False, None))
             else (content @ expectedBytes, True, None))"

subsection \<open>trim\_trailing\_whitespace\<close>

definition isWhitespace :: "char \<Rightarrow> bool" where
  "isWhitespace b = (b = SPC \<or> b = TAB)"

text \<open>
  The loop of the validator over \<open>lines\<close>, from index \<open>i\<close>: the line number \<open>i + 1\<close> of the
  first line that ends with a space or a tab. The last line is skipped when it is empty.
\<close>

fun first_trailing :: "nat \<Rightarrow> string list \<Rightarrow> nat option" where
  "first_trailing i [] = None"
| "first_trailing i (line # rest) =
     (if rest = [] \<and> length line = 0 then first_trailing (i + 1) rest
      else if length line > 0 \<and> isWhitespace (line ! (length line - 1)) then Some (i + 1)
      else first_trailing (i + 1) rest)"

definition ValidateTrimTrailingWhitespace :: ValidatorFunc where
  "ValidateTrimTrailingWhitespace filePath content cfg =
     (if TrimTrailingWhitespace cfg = None \<or> TrimTrailingWhitespace cfg = Some False then None
      else if length content = 0 then None
      else case first_trailing 0 (Split content LF) of
             Some lineNum \<Rightarrow>
               Some \<lparr>FilePath = filePath, Rule = ''trim_trailing_whitespace'',
                     Message = ''line '' @ fmt_d lineNum @ '' has trailing whitespace''\<rparr>
           | None \<Rightarrow> None)"

text \<open>
  The first loop of the fixer: every line but an empty last one is replaced by its
  trimmed version; the flag says whether some line changed.
\<close>

fun trim_lines :: "string list \<Rightarrow> string list \<times> bool" where
  "trim_lines [] = ([], False)"
| "trim_lines (line # rest) =
     (if rest = [] \<and> length line = 0 then ([line], False)
      else
        let trimmed = TrimRightFunc line (\<lambda>r. r = SPC \<or> r = TAB);
            (rest', hasChanges) = trim_lines rest
        in if line \<noteq> trimmed then (trimmed # rest', True) else (line # rest', hasChanges))"

text \<open>
  The second loop of the fixer writes the lines from index \<open>i\<close> on; \<open>n\<close> is \<open>len(lines)\<close>
  and \<open>lastLine\<close> is \<open>lines[len(lines)-1]\<close>.
\<close>

fun rejoin :: "string \<Rightarrow> int \<Rightarrow> string \<Rightarrow> int \<Rightarrow> string list \<Rightarrow> string" where
  "rejoin lineEnding n lastLine i [] = []"
| "rejoin lineEnding n lastLine i (line # rest) =
     line @
     (if i < n - 1 then
        (if i = n - 2 \<and> length lastLine = 0 then lineEnding
         else if i < n - 2 \<or> length lastLine > 0 then lineEnding
         else [])
      else [])
     @ rejoin lineEnding n lastLine (i + 1) rest"

definition FixTrimTrailingWhitespace :: FixerFunc where
  "FixTrimTrailingWhitespace filePath content cfg =
     (if TrimTrailingWhitespace cfg = None \<or> TrimTrailingWhitespace cfg = Some False
      then (content, False, None)
      else if length content = 0 then (content, False, None)
      else
        let lineEnding =
              (if Contains content [CR, LF] then [CR, LF]
               else if Contains content [CR] then [CR]
               else [LF]);
            (lines, hasChanges) = trim_lines (Split content LF)
        in if \<not> hasChanges then (content, False, None)
           else (rejoin lineEnding (int (length lines)) (last lines) 0 lines, True, None))"

subsection \<open>end\_of\_line\<close>

definition normalizeLineEndings :: "string \<Rightarrow> string \<Rightarrow> string" where
  "normalizeLineEndings content targetEnding =
     (let normalized = ReplaceAll content [CR, LF] [LF];
          normalized = ReplaceAll normalized [CR] [LF]
      in if targetEnding = [LF] then normalized
         else ReplaceAll normalized [LF] targetEnding)"

definition FixEndOfLine :: FixerFunc where
  "FixEndOfLine filePath content config =
     (if EndOfLine config = [] then (content, False, None)
      else if length content = 0 then (content, False, None)
      else
        let targetEnding =
              (if EndOfLine config = ''lf'' then Some [LF]
               else if EndOfLine config = ''crlf'' then Some [CR, LF]
               else if EndOfLine config = ''cr'' then Some [CR]
               else None)
        in case targetEnding of
             None \<Rightarrow> (content, False, None)
           | Some target \<Rightarrow>
               let result = normalizeLineEndings content target
               in (result, content \<noteq> result, None))"

text \<open>\<open>LineEnding\<close>: the bytes of a terminator, its name and the line it ends.\<close>

record LineEnding =
  le_bytes :: string
  le_name :: string
  le_line :: nat

text \<open>
  \<open>findLineEndings\<close>, from the position of the remaining content, with the current line
  number: \<open>CR LF\<close> is one terminator, a \<open>CR\<close> not followed by \<open>LF\<close> is one, and \<open>LF\<close> is one.
\<close>

fun findLineEndings_from :: "nat \<Rightarrow> string \<Rightarrow> LineEnding list" where
  "findLineEndings_from lineNum [] = []"
| "findLineEndings_from lineNum (c # cs) =
     (if c = CR then
        (case cs of
           d # ds \<Rightarrow>
             if d = LF then
               \<lparr>le_bytes = [CR, LF], le_name = ''CRLF ('' @ [BSL] @ ''r'' @ [BSL] @ ''n)'',
                le_line = lineNum\<rparr> # findLineEndings_from (lineNum + 1) ds
             else
               \<lparr>le_bytes = [CR], le_name = ''CR ('' @ [BSL] @ ''r)'', le_line = lineNum\<rparr>
                 # findLineEndings_from (lineNum + 1) cs
         | [] \<Rightarrow>
             \<lparr>le_bytes = [CR], le_name = ''CR ('' @ [BSL] @ ''r)'', le_line = lineNum\<rparr>
               # findLineEndings_from (lineNum + 1) cs)
      else if c = LF then
        \<lparr>le_bytes = [LF], le_name = ''LF ('' @ [BSL] @ ''n)'', le_line = lineNum\<rparr>
          # findLineEndings_from (lineNum + 1) cs
      else findLineEndings_from lineNum cs)"

definition findLineEndings :: "string \<Rightarrow> LineEnding list" where
  "findLineEndings content = findLineEndings_from 1 content"

definition ValidateEndOfLine :: ValidatorFunc where
  "ValidateEndOfLine filePath content config =
     (if EndOfLine config = [] then None
      else if length content = 0 then None
      else
        let expected =
              (if EndOfLine config = ''lf'' then Some ([LF], ''LF ('' @ [BSL] @ ''n)'')
               else if EndOfLine config = ''crlf''
                 then Some ([CR, LF], ''CRLF ('' @ [BSL] @ ''r'' @ [BSL] @ ''n)'')
               else if EndOfLine config = ''cr'' then Some ([CR], ''CR ('' @ [BSL] @ ''r)'')
               else None)
        in case expected of
             None \<Rightarrow> None
           | Some (expectedEnding, expectedName) \<Rightarrow>
               (case filter (\<lambda>ending. le_bytes ending \<noteq> expectedEnding) (findLineEndings content) of
                  [] \<Rightarrow> None
                | ending # _ \<Rightarrow>
                    Some \<lparr>FilePath = filePath, Rule = ''end_of_line'',
                          Message = ''line '' @ fmt_d (le_line ending) @ '' uses ''
                            @ le_name ending @ '' but should use '' @ expectedName\<rparr>))"

subsection \<open>The registries and the fix loop of one file\<close>

definition GetAllValidators :: "ValidatorFunc list" where
  "GetAllValidators =
     [ValidateInsertFinalNewline, ValidateTrimTrailingWhitespace, ValidateEndOfLine]"

definition GetAllFixers :: "FixerFunc list" where
  "GetAllFixers = [FixInsertFinalNewline, FixTrimTrailingWhitespace, FixEndOfLine]"

text \<open>
  The loop of \<open>fixSingleFile\<close> over the fixers: a fixer that reports a change replaces the
  content, a fixer that returns an error ends the loop with that error.
\<close>

fun apply_fixers :: "FixerFunc list \<Rightarrow> string \<Rightarrow> string \<Rightarrow> ResolvedConfig \<Rightarrow> bool
    \<Rightarrow> error + (string \<times> bool)" where
  "apply_fixers [] filePath content cfg modified = Inr (content, modified)"
| "apply_fixers (fixer # fixers) filePath content cfg modified =
     (case fixer filePath content cfg of
        (newContent, changed, Some err) \<Rightarrow> Inl (FixerFailed err)
      | (newContent, changed, None) \<Rightarrow>
          if changed then apply_fixers fixers filePath newContent cfg True
          else apply_fixers fixers filePath content cfg modified)"


subsection \<open>Configuration documents and the property cascade\<close>

text \<open>
  \<open>config.Section\<close> and \<open>config.EditorConfig\<close>. The Go map \<open>Properties\<close> is the list of its
  entries in the order in which \<open>range\<close> visits them, so its keys are distinct. The field
  \<open>FilePath\<close> of \<open>EditorConfig\<close> is \<open>FilePath'\<close> here.
\<close>

record Section =
  Pattern :: string
  Properties :: "(string \<times> string) list"

record EditorConfig =
  Root :: bool
  Sections :: "Section list"
  FilePath' :: string

text \<open>
  \<open>strconv.Atoi\<close>: an optional sign and at least one decimal digit, nothing else; a value
  outside the 64-bit range of \<open>int\<close> is an error.
\<close>

definition isDigit :: "char \<Rightarrow> bool" where
  "isDigit c = (48 \<le> (of_char c :: nat) \<and> (of_char c :: nat) \<le> 57)"

fun digits_value :: "int \<Rightarrow> string \<Rightarrow> int" where
  "digits_value acc [] = acc"
| "digits_value acc (c # cs) = digits_value (acc * 10 + (int (of_char c) - 48)) cs"

definition Atoi :: "string \<Rightarrow> int option" where
  "Atoi s =
     (let digits = (case s of c # cs \<Rightarrow> if c = CHR ''-'' \<or> c = CHR ''+'' then cs else s | [] \<Rightarrow> []);
          neg = (case s of c # cs \<Rightarrow> c = CHR ''-'' | [] \<Rightarrow> False)
      in if digits = [] then None
         else if list_all isDigit digits then
           (let n = digits_value 0 digits; v = (if neg then - n else n)
            in if - (2 ^ 63) \<le> v \<and> v \<le> 2 ^ 63 - 1 then Some v else None)
         else None)"

text \<open>\<open>strconv.ParseBool\<close> accepts exactly these twelve spellings.\<close>

definition ParseBool :: "string \<Rightarrow> bool option" where
  "ParseBool str =
     (if str \<in> {''1'', ''t'', ''T'', ''TRUE'', ''true'', ''True''} then Some True
      else if str \<in> {''0'', ''f'', ''F'', ''FALSE'', ''false'', ''False''} then Some False
      else None)"

text \<open>The \<open>switch\<close> of \<open>applyProperties\<close> for one entry of the map.\<close>

fun applyProperty :: "ResolvedConfig \<Rightarrow> string \<times> string \<Rightarrow> ResolvedConfig" where
  "applyProperty config (key, value) =
     (if key = ''indent_style'' then
        (if value = ''tab'' \<or> value = ''space'' then config\<lparr>IndentStyle := value\<rparr> else config)
      else if key = ''indent_size'' then
        (if value = ''tab'' then config\<lparr>IndentSize := None\<rparr>
         else (case Atoi value of
                 Some size' \<Rightarrow> if size' > 0 then config\<lparr>IndentSize := Some size'\<rparr> else config
               | None \<Rightarrow> config))
      else if key = ''tab_width'' then
        (case Atoi value of
           Some width \<Rightarrow> if width > 0 then config\<lparr>TabWidth := Some width\<rparr> else config
         | None \<Rightarrow> config)
      else if key = ''end_of_line'' then
        (if value = ''lf'' \<or> value = ''crlf'' \<or> value = ''cr''
         then config\<lparr>EndOfLine := value\<rparr> else config)
      else if key = ''charset'' then config\<lparr>Charset := value\<rparr>
      else if key = ''trim_trailing_whitespace'' then
        (case ParseBool value of
           Some b \<Rightarrow> config\<lparr>TrimTrailingWhitespace := Some b\<rparr>
         | None \<Rightarrow> config)
      else if key = ''insert_final_newline'' then
        (case ParseBool value of
           Some b \<Rightarrow> config\<lparr>InsertFinalNewline := Some b\<rparr>
         | None \<Rightarrow> config)
      else if key = ''max_line_length'' then
        (if value = ''off'' then config\<lparr>MaxLineLength := None\<rparr>
         else (case Atoi value of
                 Some len \<Rightarrow> if len > 0 then config\<lparr>MaxLineLength := Some len\<rparr> else config
               | None \<Rightarrow> config))
      else config)"

definition applyProperties :: "ResolvedConfig \<Rightarrow> (string \<times> string) list \<Rightarrow> ResolvedConfig" where
  "applyProperties config properties = foldl applyProperty config properties"

subsection \<open>From a glob pattern to a regular expression\<close>

text \<open>\<open>regexp.QuoteMeta\<close> puts a backslash before each of the bytes \<open>\.+*?()|[]{}^$\<close>.\<close>

definition specialBytes :: string where
  "specialBytes = BSL # ''.+*?()|[]{}^$''"

fun QuoteMeta :: "string \<Rightarrow> string" where
  "QuoteMeta [] = []"
| "QuoteMeta (c # cs) =
     (if c \<in> set specialBytes then BSL # c # QuoteMeta cs else c # QuoteMeta cs)"

text \<open>\<open>strings.Join\<close>.\<close>

fun Join :: "string list \<Rightarrow> string \<Rightarrow> string" where
  "Join [] sep = []"
| "Join [x] sep = x"
| "Join (x # y # ys) sep = x @ sep @ Join (y # ys) sep"

text \<open>
  A match of \<open>braceRegex\<close>, the expression \<open>\\{([^}]+)\\}\<close>, at the start of \<open>s\<close>: a
  backslash and an opening brace, at least one byte other than a closing brace, a
  backslash and a closing brace. The closing brace of a match is the first one after the
  opening brace, so there is at most one match at a position. The result is
  \<open>match[2 : len(match)-2]\<close> and what follows the match.
\<close>

definition brace_match :: "string \<Rightarrow> (string \<times> string) option" where
  "brace_match s =
     (case s of
        a # b # t \<Rightarrow>
          if a = BSL \<and> b = CHR ''{'' then
            (let inner = takeWhile (\<lambda>c. c \<noteq> CHR ''}'') t;
                 rest = dropWhile (\<lambda>c. c \<noteq> CHR ''}'') t
             in if rest \<noteq> [] \<and> length inner \<ge> 2 \<and> last inner = BSL
                then Some (butlast inner, tl rest) else None)
          else None
      | _ \<Rightarrow> None)"

lemma brace_match_shorter: "brace_match s = Some (content, rest) \<Longrightarrow> length rest < length s"
proof -
  assume a: "brace_match s = Some (content, rest)"
  then obtain x y t where s: "s = x # y # t"
    by (cases s; cases "tl s") (auto simp: brace_match_def)
  from a s have "rest = tl (dropWhile (\<lambda>c. c \<noteq> CHR ''}'') t)"
    by (auto simp: brace_match_def Let_def split: if_splits)
  moreover have "length (dropWhile (\<lambda>c. c \<noteq> CHR ''}'') t) \<le> length t"
    by (rule length_dropWhile_le)
  ultimately show ?thesis using s by simp
qed

text \<open>
  \<open>braceRegex.ReplaceAllStringFunc(pattern, f)\<close>: the matches are taken from left to
  right without overlap, and \<open>f\<close> quotes each comma-separated part of the content again
  and joins the parts into a group of alternatives.
\<close>

function replace_braces :: "string \<Rightarrow> string" where
  "replace_braces [] = []"
| "replace_braces (c # cs) =
     (case brace_match (c # cs) of
        Some (content, rest) \<Rightarrow>
          ''('' @ Join (map QuoteMeta (Split content (CHR '',''))) ''|'' @ '')''
            @ replace_braces rest
      | None \<Rightarrow> c # replace_braces cs)"
  by pat_completeness auto
termination
  by (relation "measure length") (auto dest: brace_match_shorter)

definition ConvertPatternToRegex :: "string \<Rightarrow> error + string" where
  "ConvertPatternToRegex pattern =
     (let pattern = QuoteMeta pattern;
          pattern = ReplaceAll pattern [BSL, CHR ''*'', BSL, CHR ''*''] ''.*'';
          pattern = (if pattern = [BSL, CHR ''*''] then ''.*''
                     else ReplaceAll pattern [BSL, CHR ''*''] ''[^/]*'');
          pattern = ReplaceAll pattern [BSL, CHR ''?''] ''.'';
          pattern = ReplaceAll pattern [BSL, CHR ''['', CHR ''!''] ''[^'';
          pattern = ReplaceAll pattern [BSL, CHR ''[''] ''['';
          pattern = ReplaceAll pattern [BSL, CHR '']''] '']'';
          pattern = replace_braces pattern
      in Inr (''^'' @ pattern @ ''$''))"

subsection \<open>Regular expressions of the Go library\<close>

text \<open>
  A model of \<open>regexp.MatchString\<close> for the part of the syntax of Go's \<open>regexp/syntax\<close>
  (Perl flags) that the converted patterns are written in: literal characters, a
  backslash before a punctuation character, \<open>.\<close> (any character but a newline), the
  anchors \<open>^\<close> and \<open>$\<close> (begin and end of the text), bracket classes with ranges and
  negation (a negated class matches a newline), groups with alternatives, and the
  postfix \<open>*\<close>. The remaining operators of the library (\<open>+\<close>, \<open>?\<close>, counted repetition,
  \<open>(?\<close> groups, a backslash before a letter or digit, named classes \<open>[:alpha:]\<close>) are
  outside the model, which reports them as an error \<open>unsupported\<close>. Characters are the units
  of matching.
\<close>

datatype regex =
    Lit char
  | AnyCharNotNL
  | CharClass bool "(char \<times> char) list"
  | BeginText
  | EndText
  | EmptyMatch
  | Concat regex regex
  | Alternate regex regex
  | Star regex

definition isAlnum :: "char \<Rightarrow> bool" where
  "isAlnum c = (let n = (of_char c :: nat) in
     (48 \<le> n \<and> n \<le> 57) \<or> (65 \<le> n \<and> n \<le> 90) \<or> (97 \<le> n \<and> n \<le> 122))"

text \<open>An escaped character that is \<open>always itself\<close>: ASCII and not a word character.\<close>

definition isPunct :: "char \<Rightarrow> bool" where
  "isPunct c = ((of_char c :: nat) < 128 \<and> \<not> isAlnum c)"

abbreviation unsupported :: error where
  "unsupported \<equiv> RegexpError ''unsupported''"

text \<open>\<open>parseClassChar\<close>: one character of a bracket class, possibly escaped.\<close>

fun parseClassChar :: "string \<Rightarrow> error + (char \<times> string)" where
  "parseClassChar [] = Inl (RegexpError ''missing closing ]'')"
| "parseClassChar (c # t) =
     (if c = BSL then
        (case t of
           [] \<Rightarrow> Inl (RegexpError ''trailing backslash at end of expression'')
         | e # t' \<Rightarrow> if isPunct e then Inr (e, t') else Inl unsupported)
      else Inr (c, t))"

lemma parseClassChar_shorter: "parseClassChar s = Inr (c, r) \<Longrightarrow> length r < length s"
  by (cases s) (auto split: if_splits list.splits)

text \<open>
  The loop of \<open>parseClass\<close> after the opening bracket and the optional \<open>^\<close>: single
  characters and ranges up to the closing bracket, which is an ordinary character when
  it comes first.
\<close>

function parseClassItems :: "bool \<Rightarrow> string \<Rightarrow> (char \<times> char) list
    \<Rightarrow> error + ((char \<times> char) list \<times> string)" where
  "parseClassItems first [] cls = Inl (RegexpError ''missing closing ]'')"
| "parseClassItems first (c # t) cls =
     (if c = CHR '']'' \<and> \<not> first then Inr (cls, t)
      else if c = CHR ''['' \<and> length t \<ge> 2 \<and> hd t = CHR '':'' then Inl unsupported
      else
        (case parseClassChar (c # t) of
           Inl err \<Rightarrow> Inl err
         | Inr (lo, t2) \<Rightarrow>
             (case t2 of
                m # h # t3 \<Rightarrow>
                  if m = CHR ''-'' \<and> h \<noteq> CHR '']'' then
                    (case parseClassChar (h # t3) of
                       Inl err \<Rightarrow> Inl err
                     | Inr (hi, t4) \<Rightarrow>
                         if (of_char hi :: nat) < of_char lo
                         then Inl (RegexpError ''invalid character class range'')
                         else parseClassItems False t4 (cls @ [(lo, hi)]))
                  else parseClassItems False t2 (cls @ [(lo, lo)])
              | _ \<Rightarrow> parseClassItems False t2 (cls @ [(lo, lo)]))))"
  by pat_completeness auto
termination
  by (relation "measure (\<lambda>(first, t, cls). length t)")
     (auto simp del: parseClassChar.simps dest!: parseClassChar_shorter)


lemma parseClassItems_shorter:
  "parseClassItems first t cls = Inr (cls', rest) \<Longrightarrow> length rest < length t"
proof (induction "length t" arbitrary: first t cls rule: less_induct)
  case less
  note IH = less(1) and res = less(2)
  show ?case
  proof (cases t)
    case Nil
    with res show ?thesis by simp
  next
    case (Cons c u)
    note t = this
    show ?thesis
    proof (cases "c = CHR '']'' \<and> \<not> first")
      case True
      with res t show ?thesis by simp
    next
      case False
      note nf = this
      show ?thesis
      proof (cases "c = CHR ''['' \<and> length u \<ge> 2 \<and> hd u = CHR '':''")
        case True
        with nf res t show ?thesis by simp
      next
        case False
        note nb = this
        from res t nf nb obtain lo t2 where p: "parseClassChar (c # u) = Inr (lo, t2)"
          by (cases "parseClassChar (c # u)") (auto simp del: parseClassChar.simps)
        then have l2: "length t2 < length (c # u)" by (rule parseClassChar_shorter)
        show ?thesis
        proof (cases "\<exists>h t3. t2 = CHR ''-'' # h # t3 \<and> h \<noteq> CHR '']''")
          case True
          then obtain h t3 where t2: "t2 = CHR ''-'' # h # t3" and h: "h \<noteq> CHR '']''" by blast
          from res t nf nb p t2 h obtain hi t4 where
            q: "parseClassChar (h # t3) = Inr (hi, t4)"
            and r: "parseClassItems False t4 (cls @ [(lo, hi)]) = Inr (cls', rest)"
            by (cases "parseClassChar (h # t3)")
               (auto simp del: parseClassChar.simps split: if_splits)
          from q have l4: "length t4 < length (h # t3)" by (rule parseClassChar_shorter)
          with l2 t2 t have "length t4 < length t" by simp
          from IH [OF this r] l4 l2 t2 t show ?thesis by simp
        next
          case False
          with res t nf nb p
          have r: "parseClassItems False t2 (cls @ [(lo, lo)]) = Inr (cls', rest)"
            by (auto simp del: parseClassChar.simps split: list.splits if_splits)
          from l2 t have "length t2 < length t" by simp
          from IH [OF this r] l2 t show ?thesis by simp
        qed
      qed
    qed
  qed
qed

text \<open>\<open>parseClass\<close>, from the character after the opening bracket.\<close>

definition parseClass :: "string \<Rightarrow> error + (regex \<times> string)" where
  "parseClass t =
     (case t of
        c # t' \<Rightarrow>
          if c = CHR ''^'' then
            (case parseClassItems True t' [] of
               Inl err \<Rightarrow> Inl err
             | Inr (cls, rest) \<Rightarrow> Inr (CharClass True cls, rest))
          else
            (case parseClassItems True t [] of
               Inl err \<Rightarrow> Inl err
             | Inr (cls, rest) \<Rightarrow> Inr (CharClass False cls, rest))
      | [] \<Rightarrow> Inl (RegexpError ''missing closing ]''))"

lemma parseClass_shorter: "parseClass t = Inr (r, rest) \<Longrightarrow> length rest < length t"
  by (cases t)
     (auto simp: parseClass_def simp del: parseClassItems.simps split: if_splits sum.splits
           dest!: parseClassItems_shorter)

text \<open>
  The concatenation of the items of a sequence and the alternation of the alternatives
  of a group, as the parser builds them when a group or the expression ends.
\<close>

fun mk_concat :: "regex list \<Rightarrow> regex" where
  "mk_concat [] = EmptyMatch"
| "mk_concat [r] = r"
| "mk_concat (r # rs) = Concat r (mk_concat rs)"

fun mk_alternate :: "regex list \<Rightarrow> regex" where
  "mk_alternate [] = EmptyMatch"
| "mk_alternate [r] = r"
| "mk_alternate (r # rs) = Alternate r (mk_alternate rs)"

definition close_group :: "regex list \<Rightarrow> regex list \<Rightarrow> regex" where
  "close_group alts items = mk_alternate (rev (mk_concat (rev items) # alts))"

text \<open>
  The loop of the parser over the expression. \<open>lastRepeat\<close> says that the previous token
  was a repetition operator; \<open>alts\<close> are the finished alternatives of the open group and
  \<open>items\<close> the items of its current alternative, both latest first; \<open>stack\<close> holds the
  same two lists of the groups around it.
\<close>

function parse_loop :: "string \<Rightarrow> bool \<Rightarrow> regex list \<Rightarrow> regex list
    \<Rightarrow> (regex list \<times> regex list) list \<Rightarrow> error + regex" where
  "parse_loop [] lastRepeat alts items stack =
     (if stack = [] then Inr (close_group alts items)
      else Inl (RegexpError ''missing closing )''))"
| "parse_loop (c # t) lastRepeat alts items stack =
     (if c = CHR ''('' then
        (if t \<noteq> [] \<and> hd t = CHR ''?'' then Inl unsupported
         else parse_loop t False [] [] ((alts, items) # stack))
      else if c = CHR ''|'' then parse_loop t False (mk_concat (rev items) # alts) [] stack
      else if c = CHR '')'' then
        (case stack of
           [] \<Rightarrow> Inl (RegexpError ''unexpected )'')
         | (alts', items') # stack' \<Rightarrow>
             parse_loop t False alts' (close_group alts items # items') stack')
      else if c = CHR ''*'' then
        (if lastRepeat then Inl (RegexpError ''invalid nested repetition operator'')
         else (case items of
                 [] \<Rightarrow> Inl (RegexpError ''missing argument to repetition operator'')
               | r # items' \<Rightarrow> parse_loop t True alts (Star r # items') stack))
      else if c = CHR ''+'' \<or> c = CHR ''?'' then Inl unsupported
      else if c = CHR ''{'' \<and> t \<noteq> [] \<and> isDigit (hd t) then Inl unsupported
      else if c = CHR ''.'' then parse_loop t False alts (AnyCharNotNL # items) stack
      else if c = CHR ''^'' then parse_loop t False alts (BeginText # items) stack
      else if c = CHR ''$'' then parse_loop t False alts (EndText # items) stack
      else if c = CHR ''['' then
        (case parseClass t of
           Inl err \<Rightarrow> Inl err
         | Inr (cls, rest) \<Rightarrow> parse_loop rest False alts (cls # items) stack)
      else if c = BSL then
        (case t of
           [] \<Rightarrow> Inl (RegexpError ''trailing backslash at end of expression'')
         | e # t' \<Rightarrow>
             if isPunct e then parse_loop t' False alts (Lit e # items) stack
             else Inl unsupported)
      else parse_loop t False alts (Lit c # items) stack)"
  by pat_completeness auto
termination
  by (relation "measure (\<lambda>(s, lastRepeat, alts, items, stack). length s)")
     (auto dest!: parseClass_shorter)

definition parse_regexp :: "string \<Rightarrow> error + regex" where
  "parse_regexp expr = parse_loop expr False [] [] []"

text \<open>
  Matching. A state is the flag \<open>at the beginning of the text\<close> and the rest of the text;
  \<open>run r st\<close> lists the states in which a match of \<open>r\<close> that starts in \<open>st\<close> can end. An
  iteration of a star that consumes nothing adds no state and is left out.
\<close>

definition class_matches :: "bool \<Rightarrow> (char \<times> char) list \<Rightarrow> char \<Rightarrow> bool" where
  "class_matches negated ranges c =
     (list_ex (\<lambda>(lo, hi). (of_char lo :: nat) \<le> of_char c \<and> (of_char c :: nat) \<le> of_char hi) ranges
        \<noteq> negated)"

function run :: "regex \<Rightarrow> bool \<times> string \<Rightarrow> (bool \<times> string) list" where
  "run (Lit c) (b, s) = (case s of x # xs \<Rightarrow> if x = c then [(False, xs)] else [] | [] \<Rightarrow> [])"
| "run AnyCharNotNL (b, s) =
     (case s of x # xs \<Rightarrow> if x = LF then [] else [(False, xs)] | [] \<Rightarrow> [])"
| "run (CharClass negated ranges) (b, s) =
     (case s of
        x # xs \<Rightarrow> if class_matches negated ranges x then [(False, xs)] else []
      | [] \<Rightarrow> [])"
| "run BeginText (b, s) = (if b then [(b, s)] else [])"
| "run EndText (b, s) = (if s = [] then [(b, s)] else [])"
| "run EmptyMatch (b, s) = [(b, s)]"
| "run (Concat r1 r2) (b, s) = concat (map (run r2) (run r1 (b, s)))"
| "run (Alternate r1 r2) (b, s) = run r1 (b, s) @ run r2 (b, s)"
| "run (Star r) (b, s) =
     (b, s) # concat (map (run (Star r))
                        (filter (\<lambda>st. length (snd st) < length s) (run r (b, s))))"
  by pat_completeness auto
termination
  by (relation "inv_image (less_than <*lex*> less_than) (\<lambda>(r, st). (size r, length (snd st)))")
     auto

text \<open>
  \<open>regexp.MatchString(pattern, s)\<close>: the expression is compiled, and it matches when a
  match starts at some position of \<open>s\<close>.
\<close>

definition regexp_MatchString :: "string \<Rightarrow> string \<Rightarrow> error + bool" where
  "regexp_MatchString pattern s =
     (case parse_regexp pattern of
        Inl err \<Rightarrow> Inl err
      | Inr re \<Rightarrow> Inr (list_ex (\<lambda>i. run re (i = 0, drop i s) \<noteq> []) [0..<Suc (length s)]))"

subsection \<open>Paths\<close>

text \<open>
  \<open>path/filepath\<close> on Unix, where the separator is \<open>/\<close> and there are no volume names.
  \<open>Clean\<close> drops empty and \<open>.\<close> elements, cancels an inner \<open>..\<close> against the element before
  it and drops \<open>..\<close> at the start of a rooted path.
\<close>

fun clean_elems :: "bool \<Rightarrow> string list \<Rightarrow> string list \<Rightarrow> string list" where
  "clean_elems rooted [] out = rev out"
| "clean_elems rooted (e # es) out =
     (if e = [] \<or> e = ''.'' then clean_elems rooted es out
      else if e = ''..'' then
        (case out of
           prev # out' \<Rightarrow>
             if prev = ''..'' then clean_elems rooted es (e # out)
             else clean_elems rooted es out'
         | [] \<Rightarrow> if rooted then clean_elems rooted es out else clean_elems rooted es (e # out))
      else clean_elems rooted es (e # out))"

definition Clean :: "string \<Rightarrow> string" where
  "Clean path =
     (let rooted = (path \<noteq> [] \<and> hd path = CHR ''/'');
          out = Join (clean_elems rooted (Split path (CHR ''/'')) []) ''/'';
          r = (if rooted then ''/'' @ out else out)
      in if r = [] then ''.'' else r)"

text \<open>\<open>Dir\<close>: everything up to the last separator, cleaned.\<close>

definition Dir :: "string \<Rightarrow> string" where
  "Dir path = Clean (rev (dropWhile (\<lambda>c. c \<noteq> CHR ''/'') (rev path)))"

text \<open>
  \<open>Rel(basepath, targpath)\<close>: both paths are cleaned and their common leading elements are
  dropped; every element left of the base becomes \<open>..\<close>. It fails when only one of the
  paths is rooted, or when the base still starts with \<open>..\<close>.
\<close>

definition path_elems :: "string \<Rightarrow> string list" where
  "path_elems p = (if p = [] then [] else if p = ''/'' then [[]] else Split p (CHR ''/''))"

fun strip_common :: "string list \<Rightarrow> string list \<Rightarrow> string list \<times> string list" where
  "strip_common (b # bs) (t # ts) = (if b = t then strip_common bs ts else (b # bs, t # ts))"
| "strip_common bs ts = (bs, ts)"

definition Rel :: "string \<Rightarrow> string \<Rightarrow> error + string" where
  "Rel basepath targpath =
     (let base = Clean basepath; targ = Clean targpath
      in if targ = base then Inr ''.''
         else
           let base = (if base = ''.'' then [] else base);
               baseSlashed = (base \<noteq> [] \<and> hd base = CHR ''/'');
               targSlashed = (targ \<noteq> [] \<and> hd targ = CHR ''/'')
           in if baseSlashed \<noteq> targSlashed then Inl RelError
              else
                let (bs, ts) = strip_common (path_elems base) (path_elems targ)
                in if bs \<noteq> [] \<and> hd bs = ''..'' then Inl RelError
                   else if bs \<noteq> [] then Inr (Join (replicate (length bs) ''..'' @ ts) ''/'')
                   else Inr (Join ts ''/''))"

text \<open>\<open>ToSlash\<close> changes nothing where the separator is \<open>/\<close>.\<close>

definition ToSlash :: "string \<Rightarrow> string" where
  "ToSlash path = path"

subsection \<open>Resolving the properties of a file\<close>

definition matchesPattern :: "string \<Rightarrow> string \<Rightarrow> string \<Rightarrow> error + bool" where
  "matchesPattern filePath pattern configPath =
     (let configDir = Dir configPath
      in case Rel configDir filePath of
           Inl err \<Rightarrow> Inl err
         | Inr relPath \<Rightarrow>
             let relPath = ToSlash relPath
             in case ConvertPatternToRegex pattern of
                  Inl err \<Rightarrow> Inl err
                | Inr regexPattern \<Rightarrow> regexp_MatchString regexPattern relPath)"

text \<open>
  The two loops of \<open>ResolveConfigForFile\<close>: over the sections of one document, and over
  the documents. An error of \<open>matchesPattern\<close> ends both.
\<close>

fun resolve_sections :: "string \<Rightarrow> string \<Rightarrow> ResolvedConfig \<Rightarrow> Section list
    \<Rightarrow> error + ResolvedConfig" where
  "resolve_sections filePath configPath resolved [] = Inr resolved"
| "resolve_sections filePath configPath resolved (section # sections) =
     (case matchesPattern filePath (Pattern section) configPath of
        Inl err \<Rightarrow> Inl err
      | Inr matches \<Rightarrow>
          resolve_sections filePath configPath
            (if matches then applyProperties resolved (Properties section) else resolved)
            sections)"

fun resolve_configs :: "string \<Rightarrow> ResolvedConfig \<Rightarrow> EditorConfig list
    \<Rightarrow> error + ResolvedConfig" where
  "resolve_configs filePath resolved [] = Inr resolved"
| "resolve_configs filePath resolved (config # configs) =
     (case resolve_sections filePath (FilePath' config) resolved (Sections config) of
        Inl err \<Rightarrow> Inl err
      | Inr resolved' \<Rightarrow> resolve_configs filePath resolved' configs)"

definition ResolveConfigForFile :: "string \<Rightarrow> EditorConfig list \<Rightarrow> error + ResolvedConfig" where
  "ResolveConfigForFile filePath configs = resolve_configs filePath empty_config configs"

subsection \<open>Exclusion patterns\<close>





subsection \<open>Fixing one file and a set of files\<close>

text \<open>
  What \<open>fixSingleFile\<close> asks of its environment: \<open>filepath.Abs\<close>, the documents that
  \<open>FindEditorConfigs\<close> (or \<open>FindEditorConfigsWithCustomConfig\<close> when a custom path is
  configured) returns for an absolute path, the content \<open>os.ReadFile\<close> returns (\<open>None\<close> when
  the file cannot be read), and whether \<open>os.WriteFile\<close> succeeds. Writing replaces what is
  read afterwards.
\<close>

record world =
  Abs :: "string \<Rightarrow> string option"
  FindEditorConfigs :: "string \<Rightarrow> error + EditorConfig list"
  ReadFile :: "string \<Rightarrow> string option"
  CanWrite :: "string \<Rightarrow> bool"

definition fixSingleFile :: "world \<Rightarrow> string \<Rightarrow> (error + bool) \<times> world" where
  "fixSingleFile w filePath =
     (case Abs w filePath of
        None \<Rightarrow> (Inl AbsFailed, w)
      | Some absPath \<Rightarrow>
          (case FindEditorConfigs w absPath of
             Inl err \<Rightarrow> (Inl (FindFailed err), w)
           | Inr configs \<Rightarrow>
               if length configs = 0 then (Inl NotFound, w)
               else
                 (case ResolveConfigForFile absPath configs of
                    Inl err \<Rightarrow> (Inl (ResolveFailed err), w)
                  | Inr resolvedConfig \<Rightarrow>
                      (case ReadFile w filePath of
                         None \<Rightarrow> (Inl ReadFailed, w)
                       | Some content \<Rightarrow>
                           (case apply_fixers GetAllFixers filePath content resolvedConfig False of
                              Inl err \<Rightarrow> (Inl err, w)
                            | Inr (content', modified) \<Rightarrow>
                                if modified then
                                  (if CanWrite w filePath
                                   then (Inr modified,
                                         w\<lparr>ReadFile := (ReadFile w)(filePath \<mapsto> content')\<rparr>)
                                   else (Inl WriteFailed, w))
                                else (Inr modified, w))))))"

text \<open>
  \<open>fixFilesParallel\<close> after \<open>collectFiles\<close>. The workers take the jobs from a queue and send
  one result for every job that \<open>fixSingleFile\<close> finishes without an error: the path when
  the file was fixed, the empty string when not; for a job that ends with an error they
  send nothing. The model runs the jobs in the order of the queue, which is what one
  worker does; with more workers the results arrive in some other order.
\<close>

fun run_jobs :: "world \<Rightarrow> string list \<Rightarrow> string list \<times> world" where
  "run_jobs w [] = ([], w)"
| "run_jobs w (job # jobs) =
     (case fixSingleFile w job of
        (Inl err, w') \<Rightarrow> run_jobs w' jobs
      | (Inr fixed, w') \<Rightarrow>
          (let (results, w'') = run_jobs w' jobs
           in ((if fixed then job else []) # results, w'')))"

definition fixFilesParallel :: "world \<Rightarrow> error + string list
    \<Rightarrow> (string list \<times> nat \<times> error option) \<times> world" where
  "fixFilesParallel w collected =
     (case collected of
        Inl err \<Rightarrow> (([], 0, Some err), w)
      | Inr files \<Rightarrow>
          if length files = 0 then (([], 0, None), w)
          else
            (let (results, w') = run_jobs w files
             in ((filter (\<lambda>result. result \<noteq> []) results, length files, None), w')))"

subsection \<open>Lines and terminators, for stating the end-of-line properties\<close>

text \<open>
  The line contents of a file, in the spec's sense: the segments between terminators,
  where the terminators are the ones \<open>findLineEndings\<close> recognises (\<open>CR LF\<close> as one,
  a lone \<open>CR\<close>, a lone \<open>LF\<close>). A content with \<open>n\<close> terminators has \<open>n + 1\<close> segments, the
  last one being what follows the last terminator.
\<close>

fun line_contents :: "string \<Rightarrow> string list" where
  "line_contents [] = [[]]"
| "line_contents (c # cs) =
     (if c = CR then
        (case cs of
           d # ds \<Rightarrow> if d = LF then [] # line_contents ds else [] # line_contents cs
         | [] \<Rightarrow> [] # line_contents cs)
      else if c = LF then [] # line_contents cs
      else (case line_contents cs of l # ls \<Rightarrow> (c # l) # ls | [] \<Rightarrow> [[c]]))"

text \<open>Every terminator replaced by \<open>LF\<close>, in one pass; used to describe the fixer's result.\<close>

fun fold_to_lf :: "string \<Rightarrow> string" where
  "fold_to_lf [] = []"
| "fold_to_lf [c] = (if c = CR then [LF] else [c])"
| "fold_to_lf (c # d # ds) =
     (if c = CR then (if d = LF then LF # fold_to_lf ds else LF # fold_to_lf (d # ds))
      else c # fold_to_lf (d # ds))"

subsection \<open>Globs of literal characters and wildcards, for stating the wildcard property\<close>















subsection \<open>The sections that apply to a file, for stating the cascade\<close>

text \<open>
  The property maps of the sections whose pattern matches the file, in the order of
  the cascade: document after document, and in each document section after section.
\<close>

definition matching_sections :: "string \<Rightarrow> EditorConfig list \<Rightarrow> (string \<times> string) list list" where
  "matching_sections filePath configs =
     concat (map (\<lambda>config.
       map Properties
         (filter (\<lambda>section. matchesPattern filePath (Pattern section) (FilePath' config) = Inr True)
            (Sections config))) configs)"

text \<open>
  The last writer of a property: among the sections of a list that set \<open>key\<close> to a value
  that \<open>accept\<close> takes, the value of the last one, and \<open>initial\<close> when there is none.
\<close>

definition last_writer :: "(string \<Rightarrow> 'a option) \<Rightarrow> string \<Rightarrow> 'a \<Rightarrow> (string \<times> string) list list \<Rightarrow> 'a" where
  "last_writer accept key initial sections =
     (case rev (List.map_filter
                  (\<lambda>properties. case map_of properties key of None \<Rightarrow> None | Some v \<Rightarrow> accept v)
                  sections) of
        [] \<Rightarrow> initial
      | w # _ \<Rightarrow> w)"

text \<open>
  What \<open>applyProperties\<close> accepts for each recognised key, and the value it then writes
  to the field of the key: \<open>indent_size = tab\<close> and \<open>max_line_length = off\<close> are writes of nil.
\<close>

definition accept_IndentStyle :: "string \<Rightarrow> _ option" where
  "accept_IndentStyle v = (if v = ''tab'' \<or> v = ''space'' then Some v else None)"

definition accept_IndentSize :: "string \<Rightarrow> _ option" where
  "accept_IndentSize v = (if v = ''tab'' then Some None else (case Atoi v of Some n \<Rightarrow> if n > 0 then Some (Some n) else None | None \<Rightarrow> None))"

definition accept_TabWidth :: "string \<Rightarrow> _ option" where
  "accept_TabWidth v = ((case Atoi v of Some n \<Rightarrow> if n > 0 then Some (Some n) else None | None \<Rightarrow> None))"

definition accept_EndOfLine :: "string \<Rightarrow> _ option" where
  "accept_EndOfLine v = (if v = ''lf'' \<or> v = ''crlf'' \<or> v = ''cr'' then Some v else None)"

definition accept_Charset :: "string \<Rightarrow> _ option" where
  "accept_Charset v = (Some v)"

definition accept_TrimTrailingWhitespace :: "string \<Rightarrow> _ option" where
  "accept_TrimTrailingWhitespace v = ((case ParseBool v of Some b \<Rightarrow> Some (Some b) | None \<Rightarrow> None))"

definition accept_InsertFinalNewline :: "string \<Rightarrow> _ option" where
  "accept_InsertFinalNewline v = ((case ParseBool v of Some b \<Rightarrow> Some (Some b) | None \<Rightarrow> None))"

definition accept_MaxLineLength :: "string \<Rightarrow> _ option" where
  "accept_MaxLineLength v = (if v = ''off'' then Some None else (case Atoi v of Some n \<Rightarrow> if n > 0 then Some (Some n) else None | None \<Rightarrow> None))"


section \<open>Verification\<close>

subsection \<open>End-of-line normalisation to LF\<close>

lemma ReplaceAll_CR: "ReplaceAll s [CR] [LF] = map (\<lambda>c. if c = CR then LF else c) s"
  by (induction s) auto

lemma ReplaceAll_CRLF_fold:
  "map (\<lambda>c. if c = CR then LF else c) (ReplaceAll s [CR, LF] [LF]) = fold_to_lf s"
  by (induction s rule: fold_to_lf.induct) simp_all

lemma normalize_lf: "normalizeLineEndings content [LF] = fold_to_lf content"
  by (simp add: normalizeLineEndings_def ReplaceAll_CR ReplaceAll_CRLF_fold)

lemma fold_to_lf_no_CR: "CR \<notin> set (fold_to_lf s)"
  by (induction s rule: fold_to_lf.induct) simp_all

lemma endings_fold_bytes:
  "map le_bytes (findLineEndings_from n (fold_to_lf s))
     = replicate (length (findLineEndings_from n s)) [LF]"
  by (induction s arbitrary: n rule: fold_to_lf.induct) simp_all

lemma endings_fold_lines:
  "map le_line (findLineEndings_from n (fold_to_lf s)) = map le_line (findLineEndings_from n s)"
  by (induction s arbitrary: n rule: fold_to_lf.induct) simp_all

lemma line_contents_fold: "line_contents (fold_to_lf s) = line_contents s"
  by (induction s rule: fold_to_lf.induct) simp_all

lemma FixEndOfLine_lf:
  "EndOfLine cfg = ''lf'' \<Longrightarrow>
   FixEndOfLine filePath content cfg = (fold_to_lf content, content \<noteq> fold_to_lf content, None)"
  by (cases content) (simp_all add: FixEndOfLine_def normalize_lf Let_def)

text \<open>
  Claim C3. With \<open>end_of_line = lf\<close> the end-of-line fixer returns, for every content, a
  content without \<open>CR\<close> in which every terminator that \<open>findLineEndings\<close> finds is \<open>LF\<close>;
  the line contents, the number of lines and the line numbers of the terminators are
  those of the input, and the changed flag says whether the content differs. The
  content \<open>a CR LF b CR c LF\<close> becomes \<open>a LF b LF c LF\<close>.
\<close>

theorem C3_end_of_line_lf_roundtrip:
  assumes "EndOfLine cfg = ''lf''"
  shows "(\<exists>out changed. FixEndOfLine filePath content cfg = (out, changed, None)
           \<and> changed = (content \<noteq> out)
           \<and> CR \<notin> set out
           \<and> (\<forall>e \<in> set (findLineEndings out). le_bytes e = [LF])
           \<and> line_contents out = line_contents content
           \<and> length (line_contents out) = length (line_contents content)
           \<and> map le_line (findLineEndings out) = map le_line (findLineEndings content))
       \<and> FixEndOfLine filePath [CHR ''a'', CR, LF, CHR ''b'', CR, CHR ''c'', LF] cfg
           = ([CHR ''a'', LF, CHR ''b'', LF, CHR ''c'', LF], True, None)"
proof -
  let ?out = "fold_to_lf content"
  have "map le_bytes (findLineEndings ?out) = replicate (length (findLineEndings content)) [LF]"
    by (simp add: findLineEndings_def endings_fold_bytes)
  then have "set (map le_bytes (findLineEndings ?out)) \<subseteq> {[LF]}"
    by (metis set_replicate_conv_if empty_subsetI subset_refl)
  then have all_lf: "\<forall>e \<in> set (findLineEndings ?out). le_bytes e = [LF]"
    by auto
  have general: "\<exists>out changed. FixEndOfLine filePath content cfg = (out, changed, None)
           \<and> changed = (content \<noteq> out)
           \<and> CR \<notin> set out
           \<and> (\<forall>e \<in> set (findLineEndings out). le_bytes e = [LF])
           \<and> line_contents out = line_contents content
           \<and> length (line_contents out) = length (line_contents content)
           \<and> map le_line (findLineEndings out) = map le_line (findLineEndings content)"
    using all_lf
    by (simp add: FixEndOfLine_lf [OF assms] fold_to_lf_no_CR line_contents_fold
        findLineEndings_def endings_fold_lines)
  have example: "FixEndOfLine filePath [CHR ''a'', CR, LF, CHR ''b'', CR, CHR ''c'', LF] cfg
           = ([CHR ''a'', LF, CHR ''b'', LF, CHR ''c'', LF], True, None)"
    by (simp add: FixEndOfLine_lf [OF assms])
  from general example show ?thesis by blast
qed

theorem C3_end_of_line_lf_roundtrip_witness:
  "EndOfLine (empty_config\<lparr>EndOfLine := ''lf''\<rparr>) = ''lf''
   \<and> FixEndOfLine ''f.txt'' [CHR ''x'', CR, CR, LF, LF, CHR ''y'']
         (empty_config\<lparr>EndOfLine := ''lf''\<rparr>)
       = ([CHR ''x'', LF, LF, LF, CHR ''y''], True, None)
   \<and> line_contents [CHR ''x'', LF, LF, LF, CHR ''y'']
       = line_contents [CHR ''x'', CR, CR, LF, LF, CHR ''y'']"
proof -
  have h: "EndOfLine (empty_config\<lparr>EndOfLine := ''lf''\<rparr>) = ''lf''" by simp
  have "FixEndOfLine ''f.txt'' [CHR ''x'', CR, CR, LF, LF, CHR ''y'']
         (empty_config\<lparr>EndOfLine := ''lf''\<rparr>)
       = ([CHR ''x'', LF, LF, LF, CHR ''y''], True, None)"
    by (simp add: FixEndOfLine_def normalizeLineEndings_def Let_def)
  with C3_end_of_line_lf_roundtrip [OF h, of "''f.txt''" "[CHR ''x'', CR, CR, LF, LF, CHR ''y'']"] h
  show ?thesis by auto
qed

subsection \<open>The final newline when no end-of-line style is configured\<close>

text \<open>
  Claim C10. With \<open>insert_final_newline = true\<close> and \<open>end_of_line\<close> unset, the expected
  final terminator is \<open>LF\<close>: a file that ends with \<open>CR LF\<close> or with \<open>CR\<close> is a violation of
  the validator, and the fixer replaces that terminator by one \<open>LF\<close>; a file that ends
  with a plain \<open>LF\<close> passes and is left alone.
\<close>

theorem C10_final_newline_defaults_to_lf:
  assumes "InsertFinalNewline cfg = Some True" and "EndOfLine cfg = []"
  shows "ValidateInsertFinalNewline filePath (body @ [CR, LF]) cfg
           = Some \<lparr>FilePath = filePath, Rule = ''insert_final_newline'',
                   Message = ''file should end with LF ('' @ [BSL] @ ''n), but ends with CRLF (''
                     @ [BSL] @ ''r'' @ [BSL] @ ''n)''\<rparr>
       \<and> FixInsertFinalNewline filePath (body @ [CR, LF]) cfg = (body @ [LF], True, None)
       \<and> ValidateInsertFinalNewline filePath (body @ [CR]) cfg
           = Some \<lparr>FilePath = filePath, Rule = ''insert_final_newline'',
                   Message = ''file should end with LF ('' @ [BSL] @ ''n), but ends with CR (''
                     @ [BSL] @ ''r)''\<rparr>
       \<and> FixInsertFinalNewline filePath (body @ [CR]) cfg = (body @ [LF], True, None)
       \<and> (body = [] \<or> last body \<noteq> CR \<longrightarrow>
            ValidateInsertFinalNewline filePath (body @ [LF]) cfg = None
            \<and> FixInsertFinalNewline filePath (body @ [LF]) cfg = (body @ [LF], False, None))"
proof -
  have crlf_v: "ValidateInsertFinalNewline filePath (body @ [CR, LF]) cfg
           = Some \<lparr>FilePath = filePath, Rule = ''insert_final_newline'',
                   Message = ''file should end with LF ('' @ [BSL] @ ''n), but ends with CRLF (''
                     @ [BSL] @ ''r'' @ [BSL] @ ''n)''\<rparr>"
    using assms
    by (simp add: ValidateInsertFinalNewline_def Let_def nth_append getEndOfLineDescription_def)
  have crlf_f: "FixInsertFinalNewline filePath (body @ [CR, LF]) cfg = (body @ [LF], True, None)"
    using assms by (simp add: FixInsertFinalNewline_def Let_def nth_append)
  have cr_v: "ValidateInsertFinalNewline filePath (body @ [CR]) cfg
           = Some \<lparr>FilePath = filePath, Rule = ''insert_final_newline'',
                   Message = ''file should end with LF ('' @ [BSL] @ ''n), but ends with CR (''
                     @ [BSL] @ ''r)''\<rparr>"
    using assms
    by (simp add: ValidateInsertFinalNewline_def Let_def nth_append getEndOfLineDescription_def)
  have cr_f: "FixInsertFinalNewline filePath (body @ [CR]) cfg = (body @ [LF], True, None)"
    using assms by (simp add: FixInsertFinalNewline_def Let_def nth_append)
  have lf: "ValidateInsertFinalNewline filePath (body @ [LF]) cfg = None
            \<and> FixInsertFinalNewline filePath (body @ [LF]) cfg = (body @ [LF], False, None)"
    if "body = [] \<or> last body \<noteq> CR"
  proof (cases body rule: rev_cases)
    case Nil
    with assms show ?thesis
      by (simp add: ValidateInsertFinalNewline_def FixInsertFinalNewline_def Let_def)
  next
    case (snoc ys y)
    with that have "y \<noteq> CR" by simp
    with assms snoc show ?thesis
      by (simp add: ValidateInsertFinalNewline_def FixInsertFinalNewline_def Let_def nth_append)
  qed
  from crlf_v crlf_f cr_v cr_f lf show ?thesis by blast
qed

theorem C10_final_newline_defaults_to_lf_witness:
  "InsertFinalNewline (empty_config\<lparr>InsertFinalNewline := Some True\<rparr>) = Some True
   \<and> EndOfLine (empty_config\<lparr>InsertFinalNewline := Some True\<rparr>) = []
   \<and> ValidateInsertFinalNewline ''main.go'' (''package main'' @ [CR, LF])
        (empty_config\<lparr>InsertFinalNewline := Some True\<rparr>) \<noteq> None
   \<and> FixInsertFinalNewline ''main.go'' (''package main'' @ [CR, LF])
        (empty_config\<lparr>InsertFinalNewline := Some True\<rparr>) = (''package main'' @ [LF], True, None)
   \<and> FixInsertFinalNewline ''main.go'' (''package main'' @ [CR])
        (empty_config\<lparr>InsertFinalNewline := Some True\<rparr>) = (''package main'' @ [LF], True, None)
   \<and> ValidateInsertFinalNewline ''main.go'' (''package main'' @ [LF])
        (empty_config\<lparr>InsertFinalNewline := Some True\<rparr>) = None"
proof -
  let ?cfg = "empty_config\<lparr>InsertFinalNewline := Some True\<rparr>"
  have h1: "InsertFinalNewline ?cfg = Some True" by simp
  have h2: "EndOfLine ?cfg = []" by (simp add: empty_config_def)
  have h3: "''package main'' = [] \<or> last ''package main'' \<noteq> CR" by simp
  from C10_final_newline_defaults_to_lf [OF h1 h2, of "''main.go''" "''package main''"] h1 h2 h3
  show ?thesis by simp
qed

subsection \<open>The property cascade\<close>

lemma foldl_applyProperty_field:
  assumes step: "\<And>c k' v. F (applyProperty c (k', v)) = (if k' = k then upd v (F c) else F c)"
    and dist: "distinct (map fst props)"
  shows "F (foldl applyProperty c props)
           = (case map_of props k of None \<Rightarrow> F c | Some v \<Rightarrow> upd v (F c))"
  using dist
proof (induction props arbitrary: c)
  case Nil
  show ?case by simp
next
  case (Cons p props)
  obtain k' v where p: "p = (k', v)" by (cases p)
  from Cons.prems p have d: "distinct (map fst props)" and nin: "k' \<notin> fst ` set props"
    by auto
  have IH: "F (foldl applyProperty (applyProperty c (k', v)) props)
      = (case map_of props k of None \<Rightarrow> F (applyProperty c (k', v))
         | Some v2 \<Rightarrow> upd v2 (F (applyProperty c (k', v))))"
    by (rule Cons.IH [OF d])
  show ?case
  proof (cases "k' = k")
    case True
    with nin have "map_of props k = None" by (simp add: map_of_eq_None_iff)
    with IH True p show ?thesis by (simp add: step del: applyProperty.simps)
  next
    case False
    with IH p show ?thesis by (simp add: step del: applyProperty.simps split: option.splits)
  qed
qed


lemma property_key_cases:
  "k = ''indent_style'' \<or> k = ''indent_size'' \<or> k = ''tab_width'' \<or> k = ''end_of_line'' \<or> k = ''charset'' \<or> k = ''trim_trailing_whitespace'' \<or> k = ''insert_final_newline'' \<or> k = ''max_line_length''
   \<or> (k \<noteq> ''indent_style'' \<and> k \<noteq> ''indent_size'' \<and> k \<noteq> ''tab_width'' \<and> k \<noteq> ''end_of_line'' \<and> k \<noteq> ''charset'' \<and> k \<noteq> ''trim_trailing_whitespace'' \<and> k \<noteq> ''insert_final_newline'' \<and> k \<noteq> ''max_line_length'')"
  by blast


lemma applyProperty_IndentStyle:
  "IndentStyle (applyProperty c (k, v))
     = (if k = ''indent_style'' then (\<lambda>v old. if v = ''tab'' \<or> v = ''space'' then v else old) v (IndentStyle c) else IndentStyle c)"
  using property_key_cases [of k]
  by (elim disjE) (simp_all split: option.splits)

lemma applyProperties_IndentStyle:
  "distinct (map fst props) \<Longrightarrow>
   IndentStyle (applyProperties c props)
     = (case map_of props ''indent_style'' of
          None \<Rightarrow> IndentStyle c
        | Some v \<Rightarrow> if v = ''tab'' \<or> v = ''space'' then v else IndentStyle c)"
  unfolding applyProperties_def
  using foldl_applyProperty_field [of IndentStyle "''indent_style''" "\<lambda>v old. if v = ''tab'' \<or> v = ''space'' then v else old" props c,
      OF applyProperty_IndentStyle]
  by simp

lemma applyProperty_IndentSize:
  "IndentSize (applyProperty c (k, v))
     = (if k = ''indent_size'' then (\<lambda>v old. if v = ''tab'' then None else (case Atoi v of Some n \<Rightarrow> if n > 0 then Some n else old | None \<Rightarrow> old)) v (IndentSize c) else IndentSize c)"
  using property_key_cases [of k]
  by (elim disjE) (simp_all split: option.splits)

lemma applyProperties_IndentSize:
  "distinct (map fst props) \<Longrightarrow>
   IndentSize (applyProperties c props)
     = (case map_of props ''indent_size'' of
          None \<Rightarrow> IndentSize c
        | Some v \<Rightarrow> if v = ''tab'' then None else (case Atoi v of Some n \<Rightarrow> if n > 0 then Some n else IndentSize c | None \<Rightarrow> IndentSize c))"
  unfolding applyProperties_def
  using foldl_applyProperty_field [of IndentSize "''indent_size''" "\<lambda>v old. if v = ''tab'' then None else (case Atoi v of Some n \<Rightarrow> if n > 0 then Some n else old | None \<Rightarrow> old)" props c,
      OF applyProperty_IndentSize]
  by simp

lemma applyProperty_TabWidth:
  "TabWidth (applyProperty c (k, v))
     = (if k = ''tab_width'' then (\<lambda>v old. (case Atoi v of Some n \<Rightarrow> if n > 0 then Some n else old | None \<Rightarrow> old)) v (TabWidth c) else TabWidth c)"
  using property_key_cases [of k]
  by (elim disjE) (simp_all split: option.splits)

lemma applyProperties_TabWidth:
  "distinct (map fst props) \<Longrightarrow>
   TabWidth (applyProperties c props)
     = (case map_of props ''tab_width'' of
          None \<Rightarrow> TabWidth c
        | Some v \<Rightarrow> (case Atoi v of Some n \<Rightarrow> if n > 0 then Some n else TabWidth c | None \<Rightarrow> TabWidth c))"
  unfolding applyProperties_def
  using foldl_applyProperty_field [of TabWidth "''tab_width''" "\<lambda>v old. (case Atoi v of Some n \<Rightarrow> if n > 0 then Some n else old | None \<Rightarrow> old)" props c,
      OF applyProperty_TabWidth]
  by simp

lemma applyProperty_EndOfLine:
  "EndOfLine (applyProperty c (k, v))
     = (if k = ''end_of_line'' then (\<lambda>v old. if v = ''lf'' \<or> v = ''crlf'' \<or> v = ''cr'' then v else old) v (EndOfLine c) else EndOfLine c)"
  using property_key_cases [of k]
  by (elim disjE) (simp_all split: option.splits)

lemma applyProperties_EndOfLine:
  "distinct (map fst props) \<Longrightarrow>
   EndOfLine (applyProperties c props)
     = (case map_of props ''end_of_line'' of
          None \<Rightarrow> EndOfLine c
        | Some v \<Rightarrow> if v = ''lf'' \<or> v = ''crlf'' \<or> v = ''cr'' then v else EndOfLine c)"
  unfolding applyProperties_def
  using foldl_applyProperty_field [of EndOfLine "''end_of_line''" "\<lambda>v old. if v = ''lf'' \<or> v = ''crlf'' \<or> v = ''cr'' then v else old" props c,
      OF applyProperty_EndOfLine]
  by simp

lemma applyProperty_Charset:
  "Charset (applyProperty c (k, v))
     = (if k = ''charset'' then (\<lambda>v old. v) v (Charset c) else Charset c)"
  using property_key_cases [of k]
  by (elim disjE) (simp_all split: option.splits)

lemma applyProperties_Charset:
  "distinct (map fst props) \<Longrightarrow>
   Charset (applyProperties c props)
     = (case map_of props ''charset'' of
          None \<Rightarrow> Charset c
        | Some v \<Rightarrow> v)"
  unfolding applyProperties_def
  using foldl_applyProperty_field [of Charset "''charset''" "\<lambda>v old. v" props c,
      OF applyProperty_Charset]
  by simp

lemma applyProperty_TrimTrailingWhitespace:
  "TrimTrailingWhitespace (applyProperty c (k, v))
     = (if k = ''trim_trailing_whitespace'' then (\<lambda>v old. (case ParseBool v of Some b \<Rightarrow> Some b | None \<Rightarrow> old)) v (TrimTrailingWhitespace c) else TrimTrailingWhitespace c)"
  using property_key_cases [of k]
  by (elim disjE) (simp_all split: option.splits)

lemma applyProperties_TrimTrailingWhitespace:
  "distinct (map fst props) \<Longrightarrow>
   TrimTrailingWhitespace (applyProperties c props)
     = (case map_of props ''trim_trailing_whitespace'' of
          None \<Rightarrow> TrimTrailingWhitespace c
        | Some v \<Rightarrow> (case ParseBool v of Some b \<Rightarrow> Some b | None \<Rightarrow> TrimTrailingWhitespace c))"
  unfolding applyProperties_def
  using foldl_applyProperty_field [of TrimTrailingWhitespace "''trim_trailing_whitespace''" "\<lambda>v old. (case ParseBool v of Some b \<Rightarrow> Some b | None \<Rightarrow> old)" props c,
      OF applyProperty_TrimTrailingWhitespace]
  by simp

lemma applyProperty_InsertFinalNewline:
  "InsertFinalNewline (applyProperty c (k, v))
     = (if k = ''insert_final_newline'' then (\<lambda>v old. (case ParseBool v of Some b \<Rightarrow> Some b | None \<Rightarrow> old)) v (InsertFinalNewline c) else InsertFinalNewline c)"
  using property_key_cases [of k]
  by (elim disjE) (simp_all split: option.splits)

lemma applyProperties_InsertFinalNewline:
  "distinct (map fst props) \<Longrightarrow>
   InsertFinalNewline (applyProperties c props)
     = (case map_of props ''insert_final_newline'' of
          None \<Rightarrow> InsertFinalNewline c
        | Some v \<Rightarrow> (case ParseBool v of Some b \<Rightarrow> Some b | None \<Rightarrow> InsertFinalNewline c))"
  unfolding applyProperties_def
  using foldl_applyProperty_field [of InsertFinalNewline "''insert_final_newline''" "\<lambda>v old. (case ParseBool v of Some b \<Rightarrow> Some b | None \<Rightarrow> old)" props c,
      OF applyProperty_InsertFinalNewline]
  by simp

lemma applyProperty_MaxLineLength:
  "MaxLineLength (applyProperty c (k, v))
     = (if k = ''max_line_length'' then (\<lambda>v old. if v = ''off'' then None else (case Atoi v of Some n \<Rightarrow> if n > 0 then Some n else old | None \<Rightarrow> old)) v (MaxLineLength c) else MaxLineLength c)"
  using property_key_cases [of k]
  by (elim disjE) (simp_all split: option.splits)

lemma applyProperties_MaxLineLength:
  "distinct (map fst props) \<Longrightarrow>
   MaxLineLength (applyProperties c props)
     = (case map_of props ''max_line_length'' of
          None \<Rightarrow> MaxLineLength c
        | Some v \<Rightarrow> if v = ''off'' then None else (case Atoi v of Some n \<Rightarrow> if n > 0 then Some n else MaxLineLength c | None \<Rightarrow> MaxLineLength c))"
  unfolding applyProperties_def
  using foldl_applyProperty_field [of MaxLineLength "''max_line_length''" "\<lambda>v old. if v = ''off'' then None else (case Atoi v of Some n \<Rightarrow> if n > 0 then Some n else old | None \<Rightarrow> old)" props c,
      OF applyProperty_MaxLineLength]
  by simp





lemma resolve_sections_fold:
  "resolve_sections filePath configPath r0 sections = Inr r \<Longrightarrow>
   r = foldl applyProperties r0
         (map Properties
           (filter (\<lambda>section. matchesPattern filePath (Pattern section) configPath = Inr True)
              sections))"
proof (induction sections arbitrary: r0)
  case Nil
  then show ?case by simp
next
  case (Cons s sections)
  from Cons.prems obtain m where m: "matchesPattern filePath (Pattern s) configPath = Inr m"
    by (cases "matchesPattern filePath (Pattern s) configPath") auto
  with Cons.prems have "resolve_sections filePath configPath
      (if m then applyProperties r0 (Properties s) else r0) sections = Inr r" by simp
  from Cons.IH [OF this] m show ?case by (cases m) simp_all
qed

lemma resolve_configs_fold:
  "resolve_configs filePath r0 configs = Inr r \<Longrightarrow>
   r = foldl applyProperties r0 (matching_sections filePath configs)"
proof (induction configs arbitrary: r0)
  case Nil
  then show ?case by (simp add: matching_sections_def)
next
  case (Cons c configs)
  from Cons.prems obtain r1 where
    r1: "resolve_sections filePath (FilePath' c) r0 (Sections c) = Inr r1"
    and rest: "resolve_configs filePath r1 configs = Inr r"
    by (cases "resolve_sections filePath (FilePath' c) r0 (Sections c)") auto
  from resolve_sections_fold [OF r1] Cons.IH [OF rest] show ?case
    by (simp add: matching_sections_def)
qed

lemma last_writer_Nil: "last_writer accept key initial [] = initial"
  by (simp add: last_writer_def List.map_filter_simps)

lemma last_writer_snoc:
  "last_writer accept key initial (sections @ [properties])
     = (case map_of properties key of
          None \<Rightarrow> last_writer accept key initial sections
        | Some v \<Rightarrow>
            (case accept v of
               None \<Rightarrow> last_writer accept key initial sections
             | Some w \<Rightarrow> w))"
  by (simp add: last_writer_def List.map_filter_def split: option.splits)

lemma foldl_last_writer:
  assumes step: "\<And>c properties. distinct (map fst properties) \<Longrightarrow>
       F (applyProperties c properties)
         = (case map_of properties key of
              None \<Rightarrow> F c
            | Some v \<Rightarrow> (case accept v of None \<Rightarrow> F c | Some w \<Rightarrow> w))"
    and dist: "\<forall>properties \<in> set sections. distinct (map fst properties)"
  shows "F (foldl applyProperties c0 sections) = last_writer accept key (F c0) sections"
  using dist
proof (induction sections rule: rev_induct)
  case Nil
  show ?case by (simp add: last_writer_Nil)
next
  case (snoc properties sections)
  then have d: "distinct (map fst properties)"
    and IH: "F (foldl applyProperties c0 sections) = last_writer accept key (F c0) sections"
    by simp_all
  show ?case
    by (simp add: step [OF d] IH last_writer_snoc split: option.splits)
qed

lemma last_writer_IndentStyle:
  assumes "\<forall>properties \<in> set sections. distinct (map fst properties)"
  shows "IndentStyle (foldl applyProperties c0 sections)
           = last_writer accept_IndentStyle ''indent_style'' (IndentStyle c0) sections"
proof (rule foldl_last_writer [OF _ assms])
  fix c and properties :: "(string \<times> string) list"
  assume "distinct (map fst properties)"
  then show "IndentStyle (applyProperties c properties)
         = (case map_of properties ''indent_style'' of
              None \<Rightarrow> IndentStyle c
            | Some v \<Rightarrow> (case accept_IndentStyle v of None \<Rightarrow> IndentStyle c | Some w \<Rightarrow> w))"
    by (simp add: applyProperties_IndentStyle accept_IndentStyle_def split: option.splits)
qed

lemma last_writer_IndentSize:
  assumes "\<forall>properties \<in> set sections. distinct (map fst properties)"
  shows "IndentSize (foldl applyProperties c0 sections)
           = last_writer accept_IndentSize ''indent_size'' (IndentSize c0) sections"
proof (rule foldl_last_writer [OF _ assms])
  fix c and properties :: "(string \<times> string) list"
  assume "distinct (map fst properties)"
  then show "IndentSize (applyProperties c properties)
         = (case map_of properties ''indent_size'' of
              None \<Rightarrow> IndentSize c
            | Some v \<Rightarrow> (case accept_IndentSize v of None \<Rightarrow> IndentSize c | Some w \<Rightarrow> w))"
    by (simp add: applyProperties_IndentSize accept_IndentSize_def split: option.splits)
qed

lemma last_writer_TabWidth:
  assumes "\<forall>properties \<in> set sections. distinct (map fst properties)"
  shows "TabWidth (foldl applyProperties c0 sections)
           = last_writer accept_TabWidth ''tab_width'' (TabWidth c0) sections"
proof (rule foldl_last_writer [OF _ assms])
  fix c and properties :: "(string \<times> string) list"
  assume "distinct (map fst properties)"
  then show "TabWidth (applyProperties c properties)
         = (case map_of properties ''tab_width'' of
              None \<Rightarrow> TabWidth c
            | Some v \<Rightarrow> (case accept_TabWidth v of None \<Rightarrow> TabWidth c | Some w \<Rightarrow> w))"
    by (simp add: applyProperties_TabWidth accept_TabWidth_def split: option.splits)
qed

lemma last_writer_EndOfLine:
  assumes "\<forall>properties \<in> set sections. distinct (map fst properties)"
  shows "EndOfLine (foldl applyProperties c0 sections)
           = last_writer accept_EndOfLine ''end_of_line'' (EndOfLine c0) sections"
proof (rule foldl_last_writer [OF _ assms])
  fix c and properties :: "(string \<times> string) list"
  assume "distinct (map fst properties)"
  then show "EndOfLine (applyProperties c properties)
         = (case map_of properties ''end_of_line'' of
              None \<Rightarrow> EndOfLine c
            | Some v \<Rightarrow> (case accept_EndOfLine v of None \<Rightarrow> EndOfLine c | Some w \<Rightarrow> w))"
    by (simp add: applyProperties_EndOfLine accept_EndOfLine_def split: option.splits)
qed

lemma last_writer_Charset:
  assumes "\<forall>properties \<in> set sections. distinct (map fst properties)"
  shows "Charset (foldl applyProperties c0 sections)
           = last_writer accept_Charset ''charset'' (Charset c0) sections"
proof (rule foldl_last_writer [OF _ assms])
  fix c and properties :: "(string \<times> string) list"
  assume "distinct (map fst properties)"
  then show "Charset (applyProperties c properties)
         = (case map_of properties ''charset'' of
              None \<Rightarrow> Charset c
            | Some v \<Rightarrow> (case accept_Charset v of None \<Rightarrow> Charset c | Some w \<Rightarrow> w))"
    by (simp add: applyProperties_Charset accept_Charset_def split: option.splits)
qed

lemma last_writer_TrimTrailingWhitespace:
  assumes "\<forall>properties \<in> set sections. distinct (map fst properties)"
  shows "TrimTrailingWhitespace (foldl applyProperties c0 sections)
           = last_writer accept_TrimTrailingWhitespace ''trim_trailing_whitespace'' (TrimTrailingWhitespace c0) sections"
proof (rule foldl_last_writer [OF _ assms])
  fix c and properties :: "(string \<times> string) list"
  assume "distinct (map fst properties)"
  then show "TrimTrailingWhitespace (applyProperties c properties)
         = (case map_of properties ''trim_trailing_whitespace'' of
              None \<Rightarrow> TrimTrailingWhitespace c
            | Some v \<Rightarrow> (case accept_TrimTrailingWhitespace v of None \<Rightarrow> TrimTrailingWhitespace c | Some w \<Rightarrow> w))"
    by (simp add: applyProperties_TrimTrailingWhitespace accept_TrimTrailingWhitespace_def split: option.splits)
qed

lemma last_writer_InsertFinalNewline:
  assumes "\<forall>properties \<in> set sections. distinct (map fst properties)"
  shows "InsertFinalNewline (foldl applyProperties c0 sections)
           = last_writer accept_InsertFinalNewline ''insert_final_newline'' (InsertFinalNewline c0) sections"
proof (rule foldl_last_writer [OF _ assms])
  fix c and properties :: "(string \<times> string) list"
  assume "distinct (map fst properties)"
  then show "InsertFinalNewline (applyProperties c properties)
         = (case map_of properties ''insert_final_newline'' of
              None \<Rightarrow> InsertFinalNewline c
            | Some v \<Rightarrow> (case accept_InsertFinalNewline v of None \<Rightarrow> InsertFinalNewline c | Some w \<Rightarrow> w))"
    by (simp add: applyProperties_InsertFinalNewline accept_InsertFinalNewline_def split: option.splits)
qed

lemma last_writer_MaxLineLength:
  assumes "\<forall>properties \<in> set sections. distinct (map fst properties)"
  shows "MaxLineLength (foldl applyProperties c0 sections)
           = last_writer accept_MaxLineLength ''max_line_length'' (MaxLineLength c0) sections"
proof (rule foldl_last_writer [OF _ assms])
  fix c and properties :: "(string \<times> string) list"
  assume "distinct (map fst properties)"
  then show "MaxLineLength (applyProperties c properties)
         = (case map_of properties ''max_line_length'' of
              None \<Rightarrow> MaxLineLength c
            | Some v \<Rightarrow> (case accept_MaxLineLength v of None \<Rightarrow> MaxLineLength c | Some w \<Rightarrow> w))"
    by (simp add: applyProperties_MaxLineLength accept_MaxLineLength_def split: option.splits)
qed

lemma matching_sections_distinct:
  assumes "list_all (\<lambda>config. list_all (\<lambda>section. distinct (map fst (Properties section)))
             (Sections config)) configs"
  shows "\<forall>properties \<in> set (matching_sections filePath configs). distinct (map fst properties)"
  using assms by (auto simp: matching_sections_def list_all_iff)

text \<open>
  Claim C2. When the properties of a file resolve, every field of the resolved set is
  the value of the last writer of its property in the order of the cascade: the
  documents in their order (outermost first), the sections of a document in file order,
  counting the sections whose pattern matches the file. A later section or document
  thus overwrites what an earlier one set for the same property, and a field that no
  later section writes keeps what was set before; a field without a writer stays unset.
  The keys of a section are distinct, as those of a Go map are. A value that
  \<open>applyProperties\<close> does not accept is no write.
\<close>

theorem C2_cascade_last_writer_wins:
  assumes "list_all (\<lambda>config. list_all (\<lambda>section. distinct (map fst (Properties section)))
             (Sections config)) configs"
    and "ResolveConfigForFile filePath configs = Inr resolved"
  shows "IndentStyle resolved
           = last_writer accept_IndentStyle ''indent_style'' [] (matching_sections filePath configs)
       \<and> IndentSize resolved
           = last_writer accept_IndentSize ''indent_size'' None (matching_sections filePath configs)
       \<and> TabWidth resolved
           = last_writer accept_TabWidth ''tab_width'' None (matching_sections filePath configs)
       \<and> EndOfLine resolved
           = last_writer accept_EndOfLine ''end_of_line'' [] (matching_sections filePath configs)
       \<and> Charset resolved
           = last_writer accept_Charset ''charset'' [] (matching_sections filePath configs)
       \<and> TrimTrailingWhitespace resolved
           = last_writer accept_TrimTrailingWhitespace ''trim_trailing_whitespace'' None (matching_sections filePath configs)
       \<and> InsertFinalNewline resolved
           = last_writer accept_InsertFinalNewline ''insert_final_newline'' None (matching_sections filePath configs)
       \<and> MaxLineLength resolved
           = last_writer accept_MaxLineLength ''max_line_length'' None (matching_sections filePath configs)"
proof -
  note d = matching_sections_distinct [OF assms(1), of filePath]
  have r: "resolved = foldl applyProperties empty_config (matching_sections filePath configs)"
    using assms(2) unfolding ResolveConfigForFile_def by (rule resolve_configs_fold)
  show ?thesis
    unfolding r
    using last_writer_IndentStyle [OF d] last_writer_IndentSize [OF d] last_writer_TabWidth [OF d] last_writer_EndOfLine [OF d] last_writer_Charset [OF d] last_writer_TrimTrailingWhitespace [OF d] last_writer_InsertFinalNewline [OF d] last_writer_MaxLineLength [OF d]
    by (simp add: empty_config_def)
qed

theorem C2_cascade_last_writer_wins_witness:
  "ResolveConfigForFile ''/p/q/main.go''
         [\<lparr>Root = True,
           Sections = [\<lparr>Pattern = ''*'',
                        Properties = [(''end_of_line'', ''lf''), (''indent_size'', ''2'')]\<rparr>,
                       \<lparr>Pattern = ''*.md'',
                        Properties = [(''end_of_line'', ''crlf'')]\<rparr>],
           FilePath' = ''/p/.editorconfig''\<rparr>,
          \<lparr>Root = False,
           Sections = [\<lparr>Pattern = ''*.go'',
                        Properties = [(''indent_size'', ''4''), (''indent_style'', ''tab'')]\<rparr>],
           FilePath' = ''/p/q/.editorconfig''\<rparr>]
       = Inr (empty_config\<lparr>IndentStyle := ''tab'', IndentSize := Some 4, EndOfLine := ''lf''\<rparr>)
   \<and> matching_sections ''/p/q/main.go''
         [\<lparr>Root = True,
           Sections = [\<lparr>Pattern = ''*'',
                        Properties = [(''end_of_line'', ''lf''), (''indent_size'', ''2'')]\<rparr>,
                       \<lparr>Pattern = ''*.md'',
                        Properties = [(''end_of_line'', ''crlf'')]\<rparr>],
           FilePath' = ''/p/.editorconfig''\<rparr>,
          \<lparr>Root = False,
           Sections = [\<lparr>Pattern = ''*.go'',
                        Properties = [(''indent_size'', ''4''), (''indent_style'', ''tab'')]\<rparr>],
           FilePath' = ''/p/q/.editorconfig''\<rparr>]
       = [[(''end_of_line'', ''lf''), (''indent_size'', ''2'')],
          [(''indent_size'', ''4''), (''indent_style'', ''tab'')]]
   \<and> last_writer accept_IndentSize ''indent_size'' None
         [[(''end_of_line'', ''lf''), (''indent_size'', ''2'')],
          [(''indent_size'', ''4''), (''indent_style'', ''tab'')]] = Some 4
   \<and> last_writer accept_EndOfLine ''end_of_line'' []
         [[(''end_of_line'', ''lf''), (''indent_size'', ''2'')],
          [(''indent_size'', ''4''), (''indent_style'', ''tab'')]] = ''lf''"
proof -
  let ?configs = "[\<lparr>Root = True,
           Sections = [\<lparr>Pattern = ''*'',
                        Properties = [(''end_of_line'', ''lf''), (''indent_size'', ''2'')]\<rparr>,
                       \<lparr>Pattern = ''*.md'',
                        Properties = [(''end_of_line'', ''crlf'')]\<rparr>],
           FilePath' = ''/p/.editorconfig''\<rparr>,
          \<lparr>Root = False,
           Sections = [\<lparr>Pattern = ''*.go'',
                        Properties = [(''indent_size'', ''4''), (''indent_style'', ''tab'')]\<rparr>],
           FilePath' = ''/p/q/.editorconfig''\<rparr>]"
  let ?r = "empty_config\<lparr>IndentStyle := ''tab'', IndentSize := Some 4, EndOfLine := ''lf''\<rparr>"
  have h1: "list_all (\<lambda>config. list_all (\<lambda>section. distinct (map fst (Properties section)))
             (Sections config)) ?configs" by simp
  have h2: "ResolveConfigForFile ''/p/q/main.go'' ?configs = Inr ?r" by code_simp
  have m: "matching_sections ''/p/q/main.go'' ?configs
       = [[(''end_of_line'', ''lf''), (''indent_size'', ''2'')],
          [(''indent_size'', ''4''), (''indent_style'', ''tab'')]]" by code_simp
  note t = C2_cascade_last_writer_wins [OF h1 h2]
  from t have "IndentSize ?r = last_writer accept_IndentSize ''indent_size'' None
                  (matching_sections ''/p/q/main.go'' ?configs)"
    and "EndOfLine ?r = last_writer accept_EndOfLine ''end_of_line'' []
                  (matching_sections ''/p/q/main.go'' ?configs)" by blast+
  with h2 m show ?thesis by (simp add: empty_config_def)
qed

subsection \<open>indent\_size = tab\<close>

text \<open>
  Claim C7 says that \<open>indent_size = tab\<close> leaves the field in a state of its own, different
  from unset. The field is a Go \<open>*int\<close> and \<open>indent_size = tab\<close> assigns nil to it, which is
  the value of a field that was never assigned: after \<open>indent_size = 4\<close> and then
  \<open>indent_size = tab\<close> the resolved set is the one in which nothing was ever set.
\<close>

theorem C7_indent_size_tab_is_unset_counterexample:
  "applyProperties (applyProperties empty_config [(''indent_size'', ''4'')])
     [(''indent_size'', ''tab'')] = empty_config
   \<and> IndentSize (applyProperties (empty_config\<lparr>IndentSize := Some 4\<rparr>)
        [(''indent_size'', ''tab'')]) = IndentSize empty_config"
  by code_simp

text \<open>
  Claim C7 as amended: a section that sets \<open>indent_size = tab\<close> clears the indent size
  resolved so far, whatever it was; the field is then nil, as in the set in which it was
  never assigned.
\<close>

theorem C7_indent_size_tab_clears:
  assumes "distinct (map fst props)" and "map_of props ''indent_size'' = Some ''tab''"
  shows "IndentSize (applyProperties config props) = None
       \<and> IndentSize (applyProperties config props) = IndentSize empty_config"
  using assms by (simp add: applyProperties_IndentSize empty_config_def)

theorem C7_indent_size_tab_clears_witness:
  "distinct (map fst [(''indent_style'', ''tab''), (''indent_size'', ''tab'')])
   \<and> map_of [(''indent_style'', ''tab''), (''indent_size'', ''tab'')] ''indent_size'' = Some ''tab''
   \<and> IndentSize (applyProperties (empty_config\<lparr>IndentSize := Some 4, TabWidth := Some 8\<rparr>)
         [(''indent_style'', ''tab''), (''indent_size'', ''tab'')]) = None"
proof -
  have h1: "distinct (map fst [(''indent_style'', ''tab''), (''indent_size'', ''tab'')])" by simp
  have h2: "map_of [(''indent_style'', ''tab''), (''indent_size'', ''tab'')] ''indent_size''
              = Some ''tab''" by simp
  from C7_indent_size_tab_clears [OF h1 h2, of "empty_config\<lparr>IndentSize := Some 4, TabWidth := Some 8\<rparr>"]
    h1 h2
  show ?thesis by blast
qed

subsection \<open>Patterns that do not compile\<close>







subsection \<open>The order of the fixers\<close>

text \<open>
  Claim C1 asks for the order end-of-line, trailing whitespace, final newline, which is
  also the order that the README of the program documents. \<open>GetAllFixers\<close> lists the
  fixers the other way round, and the two orders give different results. For the file
  \<open>a SPC CR LF\<close> with \<open>end_of_line = lf\<close> and \<open>trim_trailing_whitespace = true\<close>, the loop of
  \<open>fixSingleFile\<close> over \<open>GetAllFixers\<close> returns \<open>a SPC LF\<close> (the trimming runs while the line
  still ends with \<open>CR\<close>), and the three fixers in the order of the claim return \<open>a LF\<close>.
\<close>

theorem C1_fix_order_divergence:
  "apply_fixers GetAllFixers ''f.txt'' (''a '' @ [CR, LF])
     (empty_config\<lparr>EndOfLine := ''lf'', TrimTrailingWhitespace := Some True\<rparr>) False
     = Inr (''a '' @ [LF], True)
   \<and> apply_fixers [FixEndOfLine, FixTrimTrailingWhitespace, FixInsertFinalNewline] ''f.txt''
       (''a '' @ [CR, LF])
       (empty_config\<lparr>EndOfLine := ''lf'', TrimTrailingWhitespace := Some True\<rparr>) False
     = Inr (''a'' @ [LF], True)"
  by (simp add: GetAllFixers_def FixInsertFinalNewline_def FixTrimTrailingWhitespace_def
      FixEndOfLine_def normalizeLineEndings_def empty_config_def TrimRightFunc_def Let_def)

text \<open>
  Claim C4 asks that a second run of the fixers changes nothing. For the same file and
  properties the first run returns \<open>a SPC LF\<close>, and a second run on that content reports a
  change and returns \<open>a LF\<close>: the trailing-whitespace fixer is the one that changes it.
\<close>

theorem C4_second_pass_changes:
  "apply_fixers GetAllFixers ''f.txt'' (''a '' @ [CR, LF])
     (empty_config\<lparr>EndOfLine := ''lf'', TrimTrailingWhitespace := Some True\<rparr>) False
     = Inr (''a '' @ [LF], True)
   \<and> apply_fixers GetAllFixers ''f.txt'' (''a '' @ [LF])
       (empty_config\<lparr>EndOfLine := ''lf'', TrimTrailingWhitespace := Some True\<rparr>) False
     = Inr (''a'' @ [LF], True)
   \<and> FixTrimTrailingWhitespace ''f.txt'' (''a '' @ [LF])
       (empty_config\<lparr>EndOfLine := ''lf'', TrimTrailingWhitespace := Some True\<rparr>)
     = (''a'' @ [LF], True, None)"
  by (simp add: GetAllFixers_def FixInsertFinalNewline_def FixTrimTrailingWhitespace_def
      FixEndOfLine_def normalizeLineEndings_def empty_config_def TrimRightFunc_def Let_def)

subsection \<open>Trailing whitespace in files with CR\<close>

text \<open>
  Claim C5 includes the lines that end with \<open>CR LF\<close> or \<open>CR\<close>. The validator and the fixer
  split the content at \<open>LF\<close> only, so a \<open>CR\<close> stays at the end of its line and hides the
  whitespace before it. With \<open>trim_trailing_whitespace = true\<close>: the file \<open>a SPC CR LF\<close>
  passes the validator; for \<open>a SPC CR LF b SPC\<close> the validator reports line 2, not line 1,
  and the fixer returns \<open>a SPC CR CR LF b\<close>, where line 1 still ends with the space and the
  terminator \<open>CR LF\<close> has become \<open>CR CR LF\<close>, so that the two lines of the input are three.
\<close>

theorem C5_trim_misses_crlf_lines:
  "ValidateTrimTrailingWhitespace ''f.txt'' (''a '' @ [CR, LF])
     (empty_config\<lparr>TrimTrailingWhitespace := Some True\<rparr>) = None
   \<and> ValidateTrimTrailingWhitespace ''f.txt'' (''a '' @ [CR, LF] @ ''b '')
     (empty_config\<lparr>TrimTrailingWhitespace := Some True\<rparr>)
     = Some \<lparr>FilePath = ''f.txt'', Rule = ''trim_trailing_whitespace'',
             Message = ''line 2 has trailing whitespace''\<rparr>
   \<and> FixTrimTrailingWhitespace ''f.txt'' (''a '' @ [CR, LF] @ ''b '')
     (empty_config\<lparr>TrimTrailingWhitespace := Some True\<rparr>)
     = (''a '' @ [CR, CR, LF] @ ''b'', True, None)
   \<and> line_contents (''a '' @ [CR, LF] @ ''b '') = [''a '', ''b '']
   \<and> line_contents (''a '' @ [CR, CR, LF] @ ''b'') = [''a '', [], ''b'']"
  by (simp add: ValidateTrimTrailingWhitespace_def FixTrimTrailingWhitespace_def
      isWhitespace_def empty_config_def TrimRightFunc_def Let_def)

subsection \<open>A file that cannot be fixed, among others\<close>

text \<open>
  Claim C9 says that the error of one file becomes a failure record of that file in
  the aggregate result. In a directory with \<open>a.txt\<close>, which cannot be read, and \<open>b.txt\<close>,
  which has trailing whitespace, \<open>fixSingleFile\<close> returns an error for \<open>a.txt\<close>, and the result
  of \<open>fixFilesParallel\<close> is the list with \<open>b.txt\<close>, the count 2 and no error: exactly the
  result for a directory in which \<open>a.txt\<close> is readable and needs no fix. The other file is
  processed as the claim says.
\<close>

theorem C9_fix_error_leaves_no_record:
  "fst (fixSingleFile
     \<lparr>Abs = Some,
      FindEditorConfigs = (\<lambda>p. Inr [\<lparr>Root = True,
        Sections = [\<lparr>Pattern = ''*'', Properties = [(''trim_trailing_whitespace'', ''true'')]\<rparr>],
        FilePath' = ''/p/.editorconfig''\<rparr>]),
      ReadFile = (\<lambda>p. if p = ''/p/b.txt'' then Some (''x '' @ [LF]) else None),
      CanWrite = (\<lambda>p. True)\<rparr> ''/p/a.txt'') = Inl ReadFailed
   \<and> fst (fixFilesParallel
     \<lparr>Abs = Some,
      FindEditorConfigs = (\<lambda>p. Inr [\<lparr>Root = True,
        Sections = [\<lparr>Pattern = ''*'', Properties = [(''trim_trailing_whitespace'', ''true'')]\<rparr>],
        FilePath' = ''/p/.editorconfig''\<rparr>]),
      ReadFile = (\<lambda>p. if p = ''/p/b.txt'' then Some (''x '' @ [LF]) else None),
      CanWrite = (\<lambda>p. True)\<rparr> (Inr [''/p/a.txt'', ''/p/b.txt''])) = ([''/p/b.txt''], 2, None)
   \<and> fst (fixFilesParallel
     \<lparr>Abs = Some,
      FindEditorConfigs = (\<lambda>p. Inr [\<lparr>Root = True,
        Sections = [\<lparr>Pattern = ''*'', Properties = [(''trim_trailing_whitespace'', ''true'')]\<rparr>],
        FilePath' = ''/p/.editorconfig''\<rparr>]),
      ReadFile = (\<lambda>p. if p = ''/p/b.txt'' then Some (''x '' @ [LF])
                      else if p = ''/p/a.txt'' then Some (''ok'' @ [LF]) else None),
      CanWrite = (\<lambda>p. True)\<rparr> (Inr [''/p/a.txt'', ''/p/b.txt''])) = ([''/p/b.txt''], 2, None)"
  by code_simp

subsection \<open>The wildcard \<open>*\<close>\<close>
















































end
